theory Spec2Isabelle
  imports Complex_Main
begin

section \<open>Values of the program\<close>

text \<open>
  The payload of a response is whatever \<^verbatim>\<open>response.json()\<close> decodes: dicts, lists,
  strings, numbers, booleans and null. A dict is kept as the list of its items in
  insertion order; \<^verbatim>\<open>d.get(k)\<close> is \<open>map_of\<close> on that list.
\<close>

datatype json =
    JNull
  | JBool bool
  | JInt int
  | JFloat real
  | JStr string
  | JList "json list"
  | JDict "(string \<times> json) list"

text \<open>
  Exceptions are values. \<^verbatim>\<open>RetryableRequestError\<close> is the class of the module, with its
  message and its optional status code; \<^verbatim>\<open>RequestException\<close> is the transport error of
  the HTTP library; the others are the builtin exceptions the code can meet. Each carries
  the text that \<^verbatim>\<open>str(exception)\<close> returns.
\<close>

datatype py_exception =
    RetryableRequestError string "int option"
  | RequestException string
  | AttributeError string
  | KeyError string
  | IndexError string
  | TypeError string
  | ValueError string
  | RuntimeError string
  | OtherException string

fun str_exception :: "py_exception \<Rightarrow> string" where
  "str_exception (RetryableRequestError m _) = m"
| "str_exception (RequestException m) = m"
| "str_exception (AttributeError m) = m"
| "str_exception (KeyError m) = m"
| "str_exception (IndexError m) = m"
| "str_exception (TypeError m) = m"
| "str_exception (ValueError m) = m"
| "str_exception (RuntimeError m) = m"
| "str_exception (OtherException m) = m"

subsection \<open>Decimal rendering of integers\<close>

definition digit_char :: "nat \<Rightarrow> char" where
  "digit_char d =
     (if d = 0 then CHR ''0'' else if d = 1 then CHR ''1'' else if d = 2 then CHR ''2''
      else if d = 3 then CHR ''3'' else if d = 4 then CHR ''4'' else if d = 5 then CHR ''5''
      else if d = 6 then CHR ''6'' else if d = 7 then CHR ''7'' else if d = 8 then CHR ''8''
      else CHR ''9'')"

fun str_nat :: "nat \<Rightarrow> string" where
  "str_nat n = (if n < 10 then [digit_char n] else str_nat (n div 10) @ [digit_char (n mod 10)])"

declare str_nat.simps [simp del]

definition str_int :: "int \<Rightarrow> string" where
  "str_int i = (if i < 0 then CHR ''-'' # str_nat (nat (- i)) else str_nat (nat i))"

section \<open>The response classifier\<close>

record classification =
  status :: string
  error_type :: string
  recommended_action :: string
  message :: string

definition mk_classification :: "string \<Rightarrow> string \<Rightarrow> string \<Rightarrow> string \<Rightarrow> classification" where
  "mk_classification s e a m =
     \<lparr>status = s, error_type = e, recommended_action = a, message = m\<rparr>"

text \<open>Python's truth value of a decoded JSON value, as \<^verbatim>\<open>not series\<close> reads it.\<close>

fun truthy :: "json \<Rightarrow> bool" where
  "truthy JNull = False"
| "truthy (JBool b) = b"
| "truthy (JInt i) = (i \<noteq> 0)"
| "truthy (JFloat r) = (r \<noteq> 0)"
| "truthy (JStr s) = (s \<noteq> [])"
| "truthy (JList xs) = (xs \<noteq> [])"
| "truthy (JDict kvs) = (kvs \<noteq> [])"

text \<open>
  \<^verbatim>\<open>obj.get(key, default)\<close>: only a dict has the method; on any other value Python
  raises AttributeError.
\<close>

fun py_get :: "json \<Rightarrow> string \<Rightarrow> json \<Rightarrow> py_exception + json" where
  "py_get (JDict kvs) k d = Inr (case map_of kvs k of None \<Rightarrow> d | Some v \<Rightarrow> v)"
| "py_get _ k d = Inl (AttributeError ''object has no attribute get'')"

text \<open>
  \<^verbatim>\<open>series[0]\<close> where \<^verbatim>\<open>series\<close> is already known to be truthy: a list gives its
  first element, a string its first character, a dict has no key 0 (its keys are strings),
  and numbers and booleans are not subscriptable.
\<close>

fun py_index0 :: "json \<Rightarrow> py_exception + json" where
  "py_index0 (JList []) = Inl (IndexError ''list index out of range'')"
| "py_index0 (JList (x # xs)) = Inr x"
| "py_index0 (JStr []) = Inl (IndexError ''string index out of range'')"
| "py_index0 (JStr (c # cs)) = Inr (JStr [c])"
| "py_index0 (JDict kvs) = Inl (KeyError ''0'')"
| "py_index0 _ = Inl (TypeError ''object is not subscriptable'')"

fun is_dict :: "json \<Rightarrow> bool" where
  "is_dict (JDict kvs) = True"
| "is_dict _ = False"

fun is_empty_list :: "json \<Rightarrow> bool" where
  "is_empty_list (JList []) = True"
| "is_empty_list _ = False"

fun is_list :: "json \<Rightarrow> bool" where
  "is_list (JList xs) = True"
| "is_list _ = False"

text \<open>\<^verbatim>\<open>len(payload)\<close>, read only where the payload is known to be a list.\<close>

fun list_len :: "json \<Rightarrow> nat" where
  "list_len (JList xs) = length xs"
| "list_len _ = 0"

definition bls_no_data :: "json \<Rightarrow> py_exception + bool" where
  "bls_no_data payload =
     (case py_get payload ''Results'' (JDict []) of
        Inl e \<Rightarrow> Inl e
      | Inr results \<Rightarrow>
          (case py_get results ''series'' (JList []) of
             Inl e \<Rightarrow> Inl e
           | Inr series \<Rightarrow>
               if \<not> truthy series then Inr True
               else (case py_index0 series of
                       Inl e \<Rightarrow> Inl e
                     | Inr first \<Rightarrow>
                         (case py_get first ''data'' (JList []) of
                            Inl e \<Rightarrow> Inl e
                          | Inr data \<Rightarrow> Inr (is_empty_list data)))))"

definition is_no_data_response :: "string \<Rightarrow> json \<Rightarrow> py_exception + bool" where
  "is_no_data_response source_type payload =
     (if source_type = ''fred'' \<and> is_dict payload then
        (case py_get payload ''observations'' JNull of
           Inl e \<Rightarrow> Inl e
         | Inr obs \<Rightarrow> Inr (is_empty_list obs))
      else if source_type = ''bls'' \<and> is_dict payload then bls_no_data payload
      else if source_type = ''coingecko'' \<and> is_dict payload then
        (case py_get payload ''prices'' JNull of
           Inl e \<Rightarrow> Inl e
         | Inr prices \<Rightarrow> Inr (is_empty_list prices))
      else if source_type = ''census'' \<and> is_list payload then Inr (list_len payload \<le> 1)
      else Inr False)"

definition c_rate_limited_exc :: classification where
  "c_rate_limited_exc = mk_classification ''error'' ''rate_limited'' ''retry_later''
     ''Rate limit persisted after retries.''"

definition c_upstream_exc :: classification where
  "c_upstream_exc = mk_classification ''error'' ''upstream_server_error'' ''retry_later''
     ''Upstream server errors persisted after retries.''"

definition c_transient :: "py_exception \<Rightarrow> classification" where
  "c_transient e = mk_classification ''error'' ''transient_retries_exhausted'' ''retry_later''
     (str_exception e)"

definition c_missing_config :: classification where
  "c_missing_config = mk_classification ''error'' ''malformed_or_missing_config'' ''fix_request''
     ''Missing required dataset URL or configuration.''"

definition c_no_data :: classification where
  "c_no_data = mk_classification ''error'' ''no_data_in_range'' ''accept_or_change_time_range''
     ''Request succeeded but the API returned no data for this year.''"

definition c_ok :: classification where
  "c_ok = mk_classification ''ok'' '''' ''none'' ''Success''"

definition c_malformed_request :: classification where
  "c_malformed_request = mk_classification ''error'' ''malformed_request'' ''fix_request''
     ''API rejected request format or parameters.''"

definition c_auth :: classification where
  "c_auth = mk_classification ''error'' ''auth_or_access'' ''check_api_key_or_permissions''
     ''Authentication/authorization failed.''"

definition c_not_found :: classification where
  "c_not_found = mk_classification ''error'' ''dataset_not_found'' ''fix_request''
     ''Dataset endpoint or series was not found.''"

definition c_rate_limited :: classification where
  "c_rate_limited = mk_classification ''error'' ''rate_limited'' ''retry_later''
     ''Rate limit hit after retries.''"

definition c_upstream :: classification where
  "c_upstream = mk_classification ''error'' ''upstream_server_error'' ''retry_later''
     ''Upstream server error after retries.''"

definition c_unexpected :: "int \<Rightarrow> classification" where
  "c_unexpected sc = mk_classification ''error'' ''unexpected_status'' ''inspect_response''
     (''Unexpected status code '' @ str_int sc)"

text \<open>
  The branch taken when an exception was captured. An exception that is not a
  \<^verbatim>\<open>RetryableRequestError\<close>, or one whose status code is in neither set, falls through
  to the last return.
\<close>

fun classify_exception :: "py_exception \<Rightarrow> classification" where
  "classify_exception (RetryableRequestError m sc) =
     (if sc = Some 429 then c_rate_limited_exc
      else if sc \<in> {Some 500, Some 502, Some 503, Some 504} then c_upstream_exc
      else c_transient (RetryableRequestError m sc))"
| "classify_exception e = c_transient e"

definition classify_result ::
  "string \<Rightarrow> int option \<Rightarrow> json \<Rightarrow> py_exception option \<Rightarrow> py_exception + classification" where
  "classify_result source_type status_code payload exception =
     (case exception of
        Some e \<Rightarrow> Inr (classify_exception e)
      | None \<Rightarrow>
          (case status_code of
             None \<Rightarrow> Inr c_missing_config
           | Some sc \<Rightarrow>
               if 200 \<le> sc \<and> sc < 300 then
                 (case is_no_data_response source_type payload of
                    Inl e \<Rightarrow> Inl e
                  | Inr nodata \<Rightarrow> Inr (if nodata then c_no_data else c_ok))
               else if sc = 400 then Inr c_malformed_request
               else if sc \<in> {401, 403} then Inr c_auth
               else if sc = 404 then Inr c_not_found
               else if sc = 429 then Inr c_rate_limited
               else if 500 \<le> sc \<and> sc < 600 then Inr c_upstream
               else Inr (c_unexpected sc)))"

section \<open>The dataset downloader\<close>

definition START_YEAR :: int where
  "START_YEAR = 1995"

definition END_YEAR :: int where
  "END_YEAR = 2026"

subsection \<open>Paths\<close>

text \<open>
  Strings are byte strings; the slug is modelled for ASCII text, where \<^verbatim>\<open>lower\<close>
  touches the letters A to Z only. Every other byte is outside \<^verbatim>\<open>[a-z0-9]\<close> and
  becomes part of an underscore run.
\<close>

definition ascii_lower :: "char \<Rightarrow> char" where
  "ascii_lower c =
     (if 65 \<le> (of_char c :: nat) \<and> (of_char c :: nat) \<le> 90
      then char_of ((of_char c :: nat) + 32) else c)"

definition is_space :: "char \<Rightarrow> bool" where
  "is_space c = ((of_char c :: nat) \<in> {9, 10, 11, 12, 13, 28, 29, 30, 31, 32})"

definition is_slug_char :: "char \<Rightarrow> bool" where
  "is_slug_char c =
     ((97 \<le> (of_char c :: nat) \<and> (of_char c :: nat) \<le> 122)
      \<or> (48 \<le> (of_char c :: nat) \<and> (of_char c :: nat) \<le> 57))"

definition strip_chars :: "(char \<Rightarrow> bool) \<Rightarrow> string \<Rightarrow> string" where
  "strip_chars P s = rev (dropWhile P (rev (dropWhile P s)))"

text \<open>
  \<^verbatim>\<open>re.sub(r"[^a-z0-9]+", "_", value)\<close>: every maximal run of other characters
  becomes one underscore. The flag says that the run has already been replaced.
\<close>

fun sub_runs :: "bool \<Rightarrow> string \<Rightarrow> string" where
  "sub_runs in_run [] = []"
| "sub_runs in_run (c # cs) =
     (if is_slug_char c then c # sub_runs False cs
      else if in_run then sub_runs True cs
      else CHR ''_'' # sub_runs True cs)"

definition slugify :: "string \<Rightarrow> string" where
  "slugify v =
     strip_chars (\<lambda>c. c = CHR ''_'')
       (sub_runs False (strip_chars is_space (map ascii_lower v)))"

text \<open>\<^verbatim>\<open>Path(a) / b\<close> for a relative \<^verbatim>\<open>b\<close>: an empty component adds nothing.\<close>

definition path_join :: "string \<Rightarrow> string \<Rightarrow> string" where
  "path_join a b = (if b = [] then a else a @ ''/'' @ b)"

subsection \<open>Artifacts\<close>

record metadata =
  md_group :: string
  md_dataset_name :: string
  md_source_type :: string
  md_dataset_id :: string
  md_start_year :: int
  md_end_year :: int

record year_artifact =
  ya_metadata :: metadata
  ya_year :: int
  ya_request :: json
  ya_status :: string
  ya_error_type :: string
  ya_recommended_action :: string
  ya_message :: string
  ya_response :: json

record error_entry =
  ee_year :: int
  ee_error_type :: string
  ee_recommended_action :: string
  ee_message :: string
  ee_request :: json

record year_entry =
  ye_year :: int
  ye_status :: string
  ye_error_type :: string
  ye_recommended_action :: string

record summary =
  sm_metadata :: metadata
  totals_ok :: int
  totals_error :: int
  errors :: "error_entry list"
  years :: "year_entry list"

datatype file_content = YearFile year_artifact | SummaryFile summary

text \<open>
  The file system is the list of the writes made so far, oldest first. \<^verbatim>\<open>_write_json\<close>
  opens the file for writing, so the content of a path is its last write. Writing is taken
  to succeed; console output is not modelled.
\<close>

type_synonym filesystem = "(string \<times> file_content) list"

definition write_json :: "string \<Rightarrow> file_content \<Rightarrow> filesystem \<Rightarrow> filesystem" where
  "write_json path data fs = fs @ [(path, data)]"

definition file_at :: "filesystem \<Rightarrow> string \<Rightarrow> file_content option" where
  "file_at fs path = map_of (rev fs) path"

subsection \<open>The loop over the years\<close>

text \<open>
  An adapter is called with the dataset id and the year. It returns the payload, the
  request metadata and the status code, or raises; it may change the world \<open>'w\<close> (the
  network, the clock, the throttle table).
\<close>

type_synonym handler_result = "json \<times> json \<times> int option"

type_synonym 'w handler = "string \<Rightarrow> int \<Rightarrow> 'w \<Rightarrow> (py_exception + handler_result) \<times> 'w"

definition supported_source_types :: "string list" where
  "supported_source_types =
     [''fred'', ''bls'', ''coingecko'', ''oecd'', ''ecb'', ''census'', ''imf'']"

text \<open>\<^verbatim>\<open>handlers.get(source_type)\<close> on the table of the seven adapters.\<close>

definition handlers_get :: "(string \<Rightarrow> 'w handler) \<Rightarrow> string \<Rightarrow> 'w handler option" where
  "handlers_get adapters source_type =
     (if source_type \<in> set supported_source_types then Some (adapters source_type) else None)"

text \<open>
  The \<^verbatim>\<open>try\<close> block around the adapter call: the four variables keep their defaults
  when the adapter raises, and the exception is captured.
\<close>

definition capture ::
  "py_exception + handler_result \<Rightarrow> json \<times> json \<times> int option \<times> py_exception option" where
  "capture outcome =
     (case outcome of
        Inl exc \<Rightarrow> (JNull, JDict [], None, Some exc)
      | Inr (payload, request_meta, status_code) \<Rightarrow> (payload, request_meta, status_code, None))"

definition year_path :: "string \<Rightarrow> int \<Rightarrow> string" where
  "year_path base_dir year = path_join base_dir (str_int year @ ''.json'')"

definition mk_year_artifact ::
  "metadata \<Rightarrow> int \<Rightarrow> json \<Rightarrow> classification \<Rightarrow> json \<Rightarrow> year_artifact" where
  "mk_year_artifact md year request_meta result payload =
     \<lparr>ya_metadata = md, ya_year = year, ya_request = request_meta, ya_status = status result,
      ya_error_type = error_type result, ya_recommended_action = recommended_action result,
      ya_message = message result, ya_response = payload\<rparr>"

definition mk_error_entry :: "int \<Rightarrow> classification \<Rightarrow> json \<Rightarrow> error_entry" where
  "mk_error_entry year result request_meta =
     \<lparr>ee_year = year, ee_error_type = error_type result,
      ee_recommended_action = recommended_action result, ee_message = message result,
      ee_request = request_meta\<rparr>"

definition mk_year_entry :: "int \<Rightarrow> classification \<Rightarrow> year_entry" where
  "mk_year_entry year result =
     \<lparr>ye_year = year, ye_status = status result, ye_error_type = error_type result,
      ye_recommended_action = recommended_action result\<rparr>"

text \<open>The bookkeeping at the end of the loop body.\<close>

definition accumulate :: "int \<Rightarrow> classification \<Rightarrow> json \<Rightarrow> summary \<Rightarrow> summary" where
  "accumulate year result request_meta sm =
     (let sm1 =
        (if status result = ''ok'' then sm\<lparr>totals_ok := totals_ok sm + 1\<rparr>
         else sm\<lparr>totals_error := totals_error sm + 1,
                 errors := errors sm @ [mk_error_entry year result request_meta]\<rparr>)
      in sm1\<lparr>years := years sm1 @ [mk_year_entry year result]\<rparr>)"

text \<open>
  The loop. The classifier is called outside the \<^verbatim>\<open>try\<close> block, so an exception of
  the classifier leaves the loop and the function; the writes made before it stay.
\<close>

fun download_years ::
  "'w handler \<Rightarrow> metadata \<Rightarrow> string \<Rightarrow> int list \<Rightarrow> summary \<Rightarrow> filesystem \<Rightarrow> 'w
     \<Rightarrow> (py_exception + summary) \<times> filesystem \<times> 'w" where
  "download_years handler md base_dir [] sm fs w = (Inr sm, fs, w)"
| "download_years handler md base_dir (year # rest) sm fs w =
     (case handler (md_dataset_id md) year w of
        (outcome, w1) \<Rightarrow>
          (case capture outcome of
             (payload, request_meta, status_code, captured_error) \<Rightarrow>
               (case classify_result (md_source_type md) status_code payload captured_error of
                  Inl exc \<Rightarrow> (Inl exc, fs, w1)
                | Inr result \<Rightarrow>
                    download_years handler md base_dir rest
                      (accumulate year result request_meta sm)
                      (write_json (year_path base_dir year)
                         (YearFile (mk_year_artifact md year request_meta result payload)) fs)
                      w1)))"

definition download_dataset ::
  "(string \<Rightarrow> 'w handler) \<Rightarrow> string \<Rightarrow> string \<Rightarrow> string \<Rightarrow> string \<Rightarrow> filesystem \<Rightarrow> 'w
     \<Rightarrow> (py_exception + summary) \<times> filesystem \<times> 'w" where
  "download_dataset adapters group_name dataset_name source_type dataset_id fs w =
     (let slug = slugify (group_name @ ''_'' @ dataset_name);
          base_dir = path_join ''data/raw_json'' slug;
          md = \<lparr>md_group = group_name, md_dataset_name = dataset_name, md_source_type = source_type,
                md_dataset_id = dataset_id, md_start_year = START_YEAR, md_end_year = END_YEAR\<rparr>
      in case handlers_get adapters source_type of
           None \<Rightarrow> (Inl (ValueError (''Unsupported source_type: '' @ source_type)), fs, w)
         | Some handler \<Rightarrow>
             (case download_years handler md base_dir [START_YEAR..END_YEAR]
                     \<lparr>sm_metadata = md, totals_ok = 0, totals_error = 0, errors = [], years = []\<rparr>
                     fs w of
                (Inl exc, fs1, w1) \<Rightarrow> (Inl exc, fs1, w1)
              | (Inr sm, fs1, w1) \<Rightarrow>
                  (Inr sm, write_json (path_join base_dir ''_summary.json'') (SummaryFile sm) fs1, w1)))"

subsection \<open>The adapter that makes no request\<close>

text \<open>
  \<^verbatim>\<open>_imf_request\<close> never touches the session: it returns a payload that explains the
  missing configuration, with no status code.
\<close>

definition imf_request :: "'w handler" where
  "imf_request dataset_id year w =
     (if strip_chars is_space dataset_id = [] then
        (Inr (JDict [(''error'', JStr ''Dataset URL is empty. Update DATASET_ID with a valid IMF API URL.''),
                     (''year'', JInt year)],
              JDict [(''url'', JStr dataset_id), (''status_code'', JNull)], None), w)
      else
        (Inr (JDict [(''error'', JStr ''IMF raw downloader expects a concrete IMF URL in the dataset slot.''),
                     (''year'', JInt year)],
              JDict [(''url'', JStr dataset_id), (''status_code'', JNull)], None), w))"

section \<open>The throttle and the retry policy\<close>

definition MAX_ATTEMPTS :: nat where
  "MAX_ATTEMPTS = 6"

definition RETRYABLE_STATUS_CODES :: "int set" where
  "RETRYABLE_STATUS_CODES = {429, 500, 502, 503, 504}"

definition RATE_LIMIT_SECONDS :: "(string \<times> real) list" where
  "RATE_LIMIT_SECONDS =
     [(''fred'', 6 / 10), (''bls'', 8 / 10), (''coingecko'', 16 / 10), (''oecd'', 12 / 10),
      (''ecb'', 8 / 10), (''census'', 8 / 10), (''imf'', 1)]"

text \<open>\<^verbatim>\<open>RATE_LIMIT_SECONDS.get(source_type, 0.6)\<close>.\<close>

definition rate_limit_get :: "string \<Rightarrow> real" where
  "rate_limit_get source_type =
     (case map_of RATE_LIMIT_SECONDS source_type of None \<Rightarrow> 6 / 10 | Some d \<Rightarrow> d)"

subsection \<open>The world of a request\<close>

text \<open>
  The clock is kept as a real number of seconds. This idealises the code, which reads the
  clock and computes the delays in double precision; the world carries the clock only so
  that the throttle and the waits of the retry loop have their place in an attempt, and
  no property stated about requests depends on a value of the clock. The program sees
  time only when it reads the monotonic clock, so all passing of time is charged to the
  reads: the \<open>n\<close>-th read finds the clock \<open>drift n\<close> seconds later than the program
  left it. \<^verbatim>\<open>time.sleep(d)\<close> moves the clock by \<open>d\<close>; sleeping longer than asked, and
  the time a request takes, are part of the drift of the next read. The environment also
  fixes what the network answers to the \<open>n\<close>-th request of the session and the random
  jitter of the \<open>n\<close>-th wait.
\<close>

record http_request =
  rq_method :: string
  rq_url :: string
  rq_kwargs :: "(string \<times> json) list"

record http_response =
  rs_status_code :: int
  rs_url :: string
  rs_text :: string

datatype http_outcome = Responds http_response | Fails py_exception

record environment =
  drift :: "nat \<Rightarrow> real"
  respond :: "nat \<Rightarrow> http_request \<Rightarrow> http_outcome"
  jitter :: "nat \<Rightarrow> real"

record world =
  clock :: real
  reads :: nat
  last_request_ts :: "string \<Rightarrow> real option"
  requests :: nat
  draws :: nat

text \<open>\<^verbatim>\<open>time.monotonic()\<close>: the reading and the world after it.\<close>

definition monotonic :: "environment \<Rightarrow> world \<Rightarrow> real \<times> world" where
  "monotonic env w =
     (clock w + drift env (reads w),
      w\<lparr>clock := clock w + drift env (reads w), reads := reads w + 1\<rparr>)"

definition time_sleep :: "real \<Rightarrow> world \<Rightarrow> world" where
  "time_sleep d w = w\<lparr>clock := clock w + d\<rparr>"

definition throttle :: "environment \<Rightarrow> string \<Rightarrow> world \<Rightarrow> world" where
  "throttle env source_type w =
     (let min_delay = rate_limit_get source_type in
      case monotonic env w of
        (now, w1) \<Rightarrow>
          (let w2 =
             (case last_request_ts w1 source_type of
                None \<Rightarrow> w1
              | Some last_ts \<Rightarrow>
                  (let elapsed = now - last_ts in
                   if elapsed < min_delay then time_sleep (min_delay - elapsed) w1 else w1))
           in case monotonic env w2 of
                (stamp, w3) \<Rightarrow>
                  w3\<lparr>last_request_ts := (last_request_ts w3)(source_type \<mapsto> stamp)\<rparr>))"

subsection \<open>One attempt, and the retry loop\<close>

definition session_request :: "environment \<Rightarrow> http_request \<Rightarrow> world \<Rightarrow> http_outcome \<times> world" where
  "session_request env req w = (respond env (requests w) req, w\<lparr>requests := requests w + 1\<rparr>)"

text \<open>The body of the \<^verbatim>\<open>with attempt:\<close> block.\<close>

definition attempt ::
  "environment \<Rightarrow> string \<Rightarrow> http_request \<Rightarrow> world \<Rightarrow> (py_exception + http_response) \<times> world" where
  "attempt env source_type req w =
     (case session_request env req (throttle env source_type w) of
        (Fails exc, w1) \<Rightarrow> (Inl exc, w1)
      | (Responds response, w1) \<Rightarrow>
          if rs_status_code response \<in> RETRYABLE_STATUS_CODES then
            (Inl (RetryableRequestError
                    (''retryable status code '' @ str_int (rs_status_code response))
                    (Some (rs_status_code response))), w1)
          else (Inr response, w1))"

text \<open>
  \<^verbatim>\<open>retry_if_exception_type((requests.RequestException, RetryableRequestError))\<close>:
  the exceptions after which the library tries again.
\<close>

fun is_retried :: "py_exception \<Rightarrow> bool" where
  "is_retried (RetryableRequestError m sc) = True"
| "is_retried (RequestException m) = True"
| "is_retried _ = False"

text \<open>
  \<^verbatim>\<open>wait_exponential_jitter(initial=1, max=30)\<close> after the attempt of the given number:
  the library computes \<^verbatim>\<open>max(0, min(initial * 2 ** (attempt_number - 1) + jitter, max))\<close>.
\<close>

definition wait_exponential_jitter :: "environment \<Rightarrow> nat \<Rightarrow> world \<Rightarrow> real" where
  "wait_exponential_jitter env attempt_number w =
     max 0 (min (1 * 2 ^ (attempt_number - 1) + jitter env (draws w)) 30)"

text \<open>
  The loop of the retrying library, as configured: an attempt that returns ends the loop
  with its response; an exception that is not retried propagates at once; after a retried
  exception, \<^verbatim>\<open>stop_after_attempt(MAX_ATTEMPTS)\<close> stops when the number of the attempt
  has reached the maximum and, with \<^verbatim>\<open>reraise=True\<close>, the exception of that attempt is
  raised; otherwise the loop sleeps for the wait and makes the next attempt. The
  \<^verbatim>\<open>raise RuntimeError\<close> after the loop is never reached.
\<close>

function request_attempts ::
  "environment \<Rightarrow> string \<Rightarrow> http_request \<Rightarrow> nat \<Rightarrow> world
     \<Rightarrow> (py_exception + http_response) \<times> world" where
  "request_attempts env source_type req attempt_number w =
     (case attempt env source_type req w of
        (Inr response, w1) \<Rightarrow> (Inr response, w1)
      | (Inl exc, w1) \<Rightarrow>
          if \<not> is_retried exc then (Inl exc, w1)
          else if attempt_number \<ge> MAX_ATTEMPTS then (Inl exc, w1)
          else request_attempts env source_type req (attempt_number + 1)
                 (time_sleep (wait_exponential_jitter env attempt_number w1)
                    (w1\<lparr>draws := draws w1 + 1\<rparr>)))"
  by pat_completeness auto
termination
  by (relation "measure (\<lambda>(env, source_type, req, attempt_number, w). MAX_ATTEMPTS - attempt_number)")
     auto

declare request_attempts.simps [simp del]

definition request_with_retries ::
  "environment \<Rightarrow> string \<Rightarrow> http_request \<Rightarrow> world \<Rightarrow> (py_exception + http_response) \<times> world" where
  "request_with_retries env source_type req w = request_attempts env source_type req 1 w"

section \<open>The empty-result heuristic, as a property of the payload\<close>

text \<open>
  The value stored under a key of a payload, when the payload is a dict that has the key.
\<close>

fun json_lookup :: "json \<Rightarrow> string \<Rightarrow> json option" where
  "json_lookup (JDict kvs) k = map_of kvs k"
| "json_lookup _ k = None"

text \<open>The value at the path \<^verbatim>\<open>Results.series\<close>, when the payload has one.\<close>

definition results_series :: "json \<Rightarrow> json option" where
  "results_series payload =
     (case json_lookup payload ''Results'' of
        None \<Rightarrow> None
      | Some results \<Rightarrow> json_lookup results ''series'')"

text \<open>
  The heuristic in the words of the specification: for bls, \<^verbatim>\<open>Results.series\<close> is
  missing or empty, or the first series element's \<^verbatim>\<open>data\<close> list is empty.
\<close>

fun spec_bls_empty :: "json option \<Rightarrow> bool" where
  "spec_bls_empty None = True"
| "spec_bls_empty (Some (JList [])) = True"
| "spec_bls_empty (Some (JList (x # xs))) = (json_lookup x ''data'' = Some (JList []))"
| "spec_bls_empty (Some _) = False"

definition spec_no_data :: "string \<Rightarrow> json \<Rightarrow> bool" where
  "spec_no_data source_type payload =
     (if source_type = ''fred'' then json_lookup payload ''observations'' = Some (JList [])
      else if source_type = ''bls'' then spec_bls_empty (results_series payload)
      else if source_type = ''coingecko'' then json_lookup payload ''prices'' = Some (JList [])
      else if source_type = ''census'' then is_list payload \<and> list_len payload \<le> 1
      else False)"

text \<open>
  The heuristic the code implements on purpose. It differs from the words above for bls
  only: a payload that is not a dict is never empty (the \<^verbatim>\<open>isinstance\<close> guard);
  a \<^verbatim>\<open>Results.series\<close> that is present counts as empty when Python reads it as
  false (\<^verbatim>\<open>if not series\<close>: null, false, zero, an empty string, list or dict); and a
  first series element without a \<^verbatim>\<open>data\<close> key counts as empty (the default
  \<^verbatim>\<open>[]\<close> of \<^verbatim>\<open>get\<close>).
\<close>

fun design_bls_first :: "json \<Rightarrow> bool" where
  "design_bls_first (JDict kvs) = (map_of kvs ''data'' \<in> {None, Some (JList [])})"
| "design_bls_first _ = False"

fun design_bls_empty :: "json option \<Rightarrow> bool" where
  "design_bls_empty None = True"
| "design_bls_empty (Some (JList (x # xs))) = design_bls_first x"
| "design_bls_empty (Some series) = (\<not> truthy series)"

definition design_no_data :: "string \<Rightarrow> json \<Rightarrow> bool" where
  "design_no_data source_type payload =
     (if source_type = ''fred'' then json_lookup payload ''observations'' = Some (JList [])
      else if source_type = ''bls'' then
        is_dict payload \<and> design_bls_empty (results_series payload)
      else if source_type = ''coingecko'' then json_lookup payload ''prices'' = Some (JList [])
      else if source_type = ''census'' then is_list payload \<and> list_len payload \<le> 1
      else False)"

text \<open>
  The bls payloads on which the heuristic returns: \<^verbatim>\<open>Results\<close> is absent or a dict,
  and \<^verbatim>\<open>Results.series\<close> is absent, or a value that Python reads as false, or a list
  that starts with a dict. On every other bls payload that is a dict the heuristic raises.
  A payload that is not a dict, and every payload of another source, has the shape.
\<close>

fun bls_series_shape :: "json option \<Rightarrow> bool" where
  "bls_series_shape None = True"
| "bls_series_shape (Some (JList (x # xs))) = is_dict x"
| "bls_series_shape (Some series) = (\<not> truthy series)"

fun bls_results_shape :: "json option \<Rightarrow> bool" where
  "bls_results_shape None = True"
| "bls_results_shape (Some (JDict kvs)) = bls_series_shape (map_of kvs ''series'')"
| "bls_results_shape (Some _) = False"

definition bls_shape :: "string \<Rightarrow> json \<Rightarrow> bool" where
  "bls_shape source_type payload =
     (source_type = ''bls'' \<longrightarrow> bls_results_shape (json_lookup payload ''Results''))"

text \<open>A classification that is an error of the given type with the given action.\<close>

definition is_error_with :: "string \<Rightarrow> string \<Rightarrow> classification \<Rightarrow> bool" where
  "is_error_with e a c = (status c = ''error'' \<and> error_type c = e \<and> recommended_action c = a)"

section \<open>Notions used to state the properties of the downloader\<close>

text \<open>The totals, the error list and the year list of a summary agree with each other.\<close>

definition summary_consistent :: "summary \<Rightarrow> bool" where
  "summary_consistent sm =
     (totals_ok sm + totals_error sm = int (length (years sm))
      \<and> int (length (errors sm)) = totals_error sm
      \<and> map ee_year (errors sm) = map ye_year (filter (\<lambda>e. ye_status e \<noteq> ''ok'') (years sm))
      \<and> totals_ok sm = int (length (filter (\<lambda>e. ye_status e = ''ok'') (years sm))))"

text \<open>The payload that reaches the classifier after an adapter call.\<close>

definition captured_payload :: "py_exception + handler_result \<Rightarrow> json" where
  "captured_payload outcome = fst (capture outcome)"

text \<open>
  What a run over the given years yields year by year: the adapter is called on the world
  that the call for the previous year left, and each year gives the request metadata and
  the classification of the outcome of its call. The trace is an exception when the
  classifier raises for one of the years.
\<close>

fun year_trace ::
  "'w handler \<Rightarrow> string \<Rightarrow> string \<Rightarrow> int list \<Rightarrow> 'w
     \<Rightarrow> py_exception + (int \<times> json \<times> classification) list" where
  "year_trace handler source_type dataset_id [] w = Inr []"
| "year_trace handler source_type dataset_id (year # rest) w =
     (case handler dataset_id year w of
        (outcome, w1) \<Rightarrow>
          (case capture outcome of
             (payload, request_meta, status_code, captured_error) \<Rightarrow>
               (case classify_result source_type status_code payload captured_error of
                  Inl exc \<Rightarrow> Inl exc
                | Inr result \<Rightarrow>
                    (case year_trace handler source_type dataset_id rest w1 of
                       Inl exc \<Rightarrow> Inl exc
                     | Inr trace \<Rightarrow> Inr ((year, request_meta, result) # trace)))))"

text \<open>The classification of a year has status ok.\<close>

definition trace_ok :: "int \<times> json \<times> classification \<Rightarrow> bool" where
  "trace_ok t = (case t of (year, request_meta, result) \<Rightarrow> status result = ''ok'')"

text \<open>The year entry and the error entry that belong to the classification of a year.\<close>

definition trace_year_entry :: "int \<times> json \<times> classification \<Rightarrow> year_entry" where
  "trace_year_entry t = (case t of (year, request_meta, result) \<Rightarrow> mk_year_entry year result)"

definition trace_error_entry :: "int \<times> json \<times> classification \<Rightarrow> error_entry" where
  "trace_error_entry t =
     (case t of (year, request_meta, result) \<Rightarrow> mk_error_entry year result request_meta)"

text \<open>
  A behaviour of the bls adapter: the upstream answers 200 every year, with one
  observation for 1995 and with \<^verbatim>\<open>{"Results": null}\<close> afterwards. The world counts the
  calls of the adapter.
\<close>

definition bls_null_results_adapter :: "string \<Rightarrow> nat handler" where
  "bls_null_results_adapter source_type dataset_id year calls =
     (if year = 1995 then
        (Inr (JDict [(''Results'',
                 JDict [(''series'', JList [JDict [(''data'', JList [JInt 1])]])])],
              JDict [(''status_code'', JInt 200)], Some 200), calls + 1)
      else
        (Inr (JDict [(''Results'', JNull)], JDict [(''status_code'', JInt 200)], Some 200),
         calls + 1))"

section \<open>Notions used to state the property of the retries\<close>

text \<open>
  An upstream that answers 503 to every request, on a clock that moves only while the
  program sleeps, with no jitter; a request; and the world at the start of the process.
\<close>

definition busy_upstream :: environment where
  "busy_upstream =
     \<lparr>drift = (\<lambda>n. 0),
      respond = (\<lambda>n req. Responds \<lparr>rs_status_code = 503, rs_url = rq_url req, rs_text = ''''\<rparr>),
      jitter = (\<lambda>n. 0)\<rparr>"

definition fred_get :: http_request where
  "fred_get =
     \<lparr>rq_method = ''GET'', rq_url = ''https://api.stlouisfed.org/fred/series/observations'',
      rq_kwargs = [(''timeout'', JInt 30)]\<rparr>"

definition start_world :: world where
  "start_world = \<lparr>clock = 0, reads = 0, last_request_ts = (\<lambda>s. None), requests = 0, draws = 0\<rparr>"

section \<open>Properties of the classifier\<close>

lemma is_empty_list_iff: "is_empty_list j = (j = JList [])"
  by (cases j rule: is_empty_list.cases) auto

text \<open>
  C2. When an exception was captured, the status code and the payload play no part: the
  result is the classification of the exception alone. A \<^verbatim>\<open>RetryableRequestError\<close>
  with status 429 is a rate-limit error, one with status 500, 502, 503 or 504 an upstream
  server error, and every other exception is classified as exhausted transient retries,
  with the text of the exception as the message.
\<close>

theorem classify_exception_wins:
  "classify_result source_type status_code payload (Some exc) = Inr (classify_exception exc)
   \<and> is_error_with ''rate_limited'' ''retry_later''
        (classify_exception (RetryableRequestError m (Some 429)))
   \<and> (code \<in> {500, 502, 503, 504} \<longrightarrow>
        is_error_with ''upstream_server_error'' ''retry_later''
          (classify_exception (RetryableRequestError m (Some code))))
   \<and> ((\<forall>m' code'. exc = RetryableRequestError m' (Some code') \<longrightarrow>
           code' \<notin> {429, 500, 502, 503, 504}) \<longrightarrow>
        is_error_with ''transient_retries_exhausted'' ''retry_later'' (classify_exception exc)
        \<and> message (classify_exception exc) = str_exception exc)"
proof -
  have a: "classify_result source_type status_code payload (Some exc) = Inr (classify_exception exc)"
    by (simp add: classify_result_def)
  have b: "is_error_with ''rate_limited'' ''retry_later''
        (classify_exception (RetryableRequestError m (Some 429)))"
    by (simp add: is_error_with_def c_rate_limited_exc_def mk_classification_def)
  have c: "code \<in> {500, 502, 503, 504} \<longrightarrow>
        is_error_with ''upstream_server_error'' ''retry_later''
          (classify_exception (RetryableRequestError m (Some code)))"
    by (auto simp: is_error_with_def c_upstream_exc_def mk_classification_def)
  have d: "(\<forall>m' code'. exc = RetryableRequestError m' (Some code') \<longrightarrow>
           code' \<notin> {429, 500, 502, 503, 504}) \<longrightarrow>
        is_error_with ''transient_retries_exhausted'' ''retry_later'' (classify_exception exc)
        \<and> message (classify_exception exc) = str_exception exc"
  proof (cases exc)
    case (RetryableRequestError m' sc)
    then show ?thesis
      by (cases sc) (auto simp: is_error_with_def c_transient_def mk_classification_def)
  qed (simp_all add: is_error_with_def c_transient_def mk_classification_def)
  from a b c d show ?thesis by blast
qed

theorem classify_exception_wins_witness:
  "classify_result ''fred'' (Some 200) (JDict [(''observations'', JList [])])
      (Some (RequestException ''connection reset''))
     = Inr (classify_exception (RequestException ''connection reset''))
   \<and> is_error_with ''upstream_server_error'' ''retry_later''
          (classify_exception (RetryableRequestError ''retryable status code 503'' (Some 503)))
   \<and> is_error_with ''transient_retries_exhausted'' ''retry_later''
          (classify_exception (RequestException ''connection reset''))
   \<and> message (classify_exception (RequestException ''connection reset'')) = ''connection reset''"
  using classify_exception_wins [of "''fred''" "Some 200" "JDict [(''observations'', JList [])]"
        "RequestException ''connection reset''" "''retryable status code 503''" 503]
  by simp

text \<open>
  How the heuristic of the code reads on a payload of the shape \<open>bls_shape\<close>: it does
  not raise there, and it answers what \<open>design_no_data\<close> says.
\<close>

lemma series_falsy_design: "\<not> truthy series \<Longrightarrow> design_bls_empty (Some series)"
  by (cases series rule: truthy.cases) simp_all

lemma bls_series_design:
  assumes "bls_series_shape (Some series)"
  shows "(if \<not> truthy series then Inr True
          else (case py_index0 series of
                  Inl e \<Rightarrow> Inl e
                | Inr first \<Rightarrow>
                    (case py_get first ''data'' (JList []) of
                       Inl e \<Rightarrow> Inl e
                     | Inr data \<Rightarrow> Inr (is_empty_list data))))
         = Inr (design_bls_empty (Some series))"
proof (cases "truthy series")
  case False
  then show ?thesis by (simp add: series_falsy_design)
next
  case True
  with assms obtain x xs where s: "series = JList (x # xs)" and d: "is_dict x"
    by (cases "Some series" rule: bls_series_shape.cases) auto
  from d obtain ds where x: "x = JDict ds" by (cases x) auto
  show ?thesis using s x
    by (cases "map_of ds ''data''") (auto simp: is_empty_list_iff)
qed

lemma bls_no_data_design:
  assumes "bls_results_shape (map_of kvs ''Results'')"
  shows "bls_no_data (JDict kvs) = Inr (design_bls_empty (results_series (JDict kvs)))"
proof (cases "map_of kvs ''Results''")
  case None
  then show ?thesis by (simp add: bls_no_data_def results_series_def)
next
  case (Some r)
  with assms obtain rs where r: "r = JDict rs" by (cases r) auto
  show ?thesis
  proof (cases "map_of rs ''series''")
    case None
    with Some r show ?thesis by (simp add: bls_no_data_def results_series_def)
  next
    case (Some series)
    from assms \<open>map_of kvs ''Results'' = Some r\<close> r Some
    have "bls_series_shape (Some series)" by simp
    from bls_series_design [OF this] Some r \<open>map_of kvs ''Results'' = Some r\<close>
    show ?thesis by (simp add: bls_no_data_def results_series_def)
  qed
qed

lemma is_no_data_design:
  assumes "bls_shape st p"
  shows "is_no_data_response st p = Inr (design_no_data st p)"
proof (cases p)
  case (JDict kvs)
  with assms show ?thesis
    by (auto simp: is_no_data_response_def design_no_data_def bls_shape_def bls_no_data_design
        is_empty_list_iff split: option.splits)
qed (auto simp: is_no_data_response_def design_no_data_def)

text \<open>
  The shape leaves out the payloads on which the heuristic raises, and no other: outside
  the shape, a status code from 200 to 299 makes the classifier raise.
\<close>

lemma bls_series_raises:
  assumes "\<not> bls_series_shape (Some series)"
  shows "\<exists>exc. (if \<not> truthy series then Inr True
          else (case py_index0 series of
                  Inl e \<Rightarrow> Inl e
                | Inr first \<Rightarrow>
                    (case py_get first ''data'' (JList []) of
                       Inl e \<Rightarrow> Inl e
                     | Inr data \<Rightarrow> Inr (is_empty_list data)))) = Inl exc"
proof (cases series)
  case (JList xs)
  with assms obtain x xs' where xs: "xs = x # xs'" and nd: "\<not> is_dict x"
    by (cases xs) auto
  from nd have "\<exists>exc. py_get x ''data'' (JList []) = Inl exc" by (cases x) auto
  with JList xs show ?thesis by auto
next
  case (JStr s)
  with assms obtain c cs where "s = c # cs" by (cases s) auto
  with JStr show ?thesis by simp
qed (use assms in auto)

lemma bls_no_data_raises:
  assumes "\<not> bls_results_shape (map_of kvs ''Results'')"
  shows "\<exists>exc. bls_no_data (JDict kvs) = Inl exc"
proof (cases "map_of kvs ''Results''")
  case None
  with assms show ?thesis by simp
next
  case (Some r)
  show ?thesis
  proof (cases r)
    case (JDict rs)
    show ?thesis
    proof (cases "map_of rs ''series''")
      case None
      with assms Some JDict show ?thesis by simp
    next
      case (Some series)
      with assms \<open>map_of kvs ''Results'' = Some r\<close> JDict
      have "\<not> bls_series_shape (Some series)" by simp
      from bls_series_raises [OF this] Some JDict \<open>map_of kvs ''Results'' = Some r\<close>
      show ?thesis by (simp add: bls_no_data_def)
    qed
  qed (use Some in \<open>simp_all add: bls_no_data_def\<close>)
qed

lemma classify_raises_outside_shape:
  assumes "200 \<le> sc" "sc < 300" "\<not> bls_shape source_type payload"
  shows "\<exists>exc. classify_result source_type (Some sc) payload None = Inl exc"
proof -
  from assms(3) have st: "source_type = ''bls''"
    and ns: "\<not> bls_results_shape (json_lookup payload ''Results'')"
    by (auto simp: bls_shape_def)
  from ns obtain kvs where p: "payload = JDict kvs" by (cases payload) auto
  from bls_no_data_raises [of kvs] ns p obtain exc where "bls_no_data (JDict kvs) = Inl exc"
    by auto
  with assms(1,2) st p show ?thesis
    by (simp add: classify_result_def is_no_data_response_def)
qed

text \<open>
  C3, as the code has it. With no exception and a status code from 200 to 299, every
  payload on which the classifier returns (for bls: \<^verbatim>\<open>Results\<close> absent or a dict, and
  \<^verbatim>\<open>Results.series\<close> absent, read as false by Python, or a list that starts with a
  dict) is classified \<^verbatim>\<open>no_data_in_range\<close> exactly when the heuristic holds, and
  \<^verbatim>\<open>ok\<close> otherwise, where the heuristic is: fred, the payload is a dict whose
  \<^verbatim>\<open>observations\<close> is an empty list; bls, the payload is a dict and
  \<^verbatim>\<open>Results.series\<close> is missing or read as false by Python (null, false, zero, an
  empty string, list or dict), or its first element has no \<^verbatim>\<open>data\<close> or an empty
  \<^verbatim>\<open>data\<close> list; coingecko, \<^verbatim>\<open>prices\<close> is an empty list; census, the payload is
  a list of at most one row; any other source, never.
\<close>

theorem classify_success_no_data:
  "200 \<le> sc \<Longrightarrow> sc < 300 \<Longrightarrow> bls_shape source_type payload \<Longrightarrow>
   classify_result source_type (Some sc) payload None
     = Inr (if design_no_data source_type payload then c_no_data else c_ok)"
  by (simp add: classify_result_def is_no_data_design)

theorem classify_success_no_data_witness:
  "(200::int) \<le> 200 \<and> (200::int) < 300
   \<and> bls_shape ''bls'' (JDict [(''Results'', JDict [(''series'', JList [JDict [(''data'', JList [])]])])])
   \<and> classify_result ''bls'' (Some 200)
        (JDict [(''Results'', JDict [(''series'', JList [JDict [(''data'', JList [])]])])]) None
       = Inr c_no_data
   \<and> classify_result ''bls'' (Some 200) (JDict [(''Results'', JDict [(''series'', JNull)])]) None
       = Inr c_no_data
   \<and> classify_result ''census'' (Some 200)
        (JList [JList [JStr ''NAME''], JList [JStr ''Alabama'']]) None
       = Inr c_ok"
proof -
  let ?p = "JDict [(''Results'', JDict [(''series'', JList [JDict [(''data'', JList [])]])])]"
  let ?n = "JDict [(''Results'', JDict [(''series'', JNull)])]"
  let ?q = "JList [JList [JStr ''NAME''], JList [JStr ''Alabama'']]"
  have s1: "bls_shape ''bls'' ?p" by (simp add: bls_shape_def)
  have s2: "bls_shape ''census'' ?q" by (simp add: bls_shape_def)
  have s3: "bls_shape ''bls'' ?n" by (simp add: bls_shape_def)
  have d1: "design_no_data ''bls'' ?p" by (simp add: design_no_data_def results_series_def)
  have d2: "\<not> design_no_data ''census'' ?q" by (simp add: design_no_data_def)
  have d3: "design_no_data ''bls'' ?n" by (simp add: design_no_data_def results_series_def)
  from classify_success_no_data [of 200 "''bls''" ?p] s1 d1
       classify_success_no_data [of 200 "''census''" ?q] s2 d2
       classify_success_no_data [of 200 "''bls''" ?n] s3 d3
  show ?thesis by simp
qed

text \<open>
  C3, as the specification words it, fails on a bls payload that is not a dict: the list
  \<^verbatim>\<open>[]\<close> has no \<^verbatim>\<open>Results.series\<close>, so the words call it empty, and the code
  classifies it \<^verbatim>\<open>ok\<close>.
\<close>

theorem classify_success_spec_wording_counterexample:
  "\<not> (classify_result ''bls'' (Some 200) (JList []) None
        = Inr (if spec_no_data ''bls'' (JList []) then c_no_data else c_ok))"
  by (simp add: classify_result_def is_no_data_response_def spec_no_data_def results_series_def
     c_no_data_def c_ok_def mk_classification_def)

text \<open>
  C4. With no exception, the status code decides: none at all is a missing configuration;
  400 a malformed request; 401 and 403 an access error; 404 a dataset that was not found;
  429 a rate limit; 500 to 599 an upstream server error; and any other code outside
  200 to 299 an unexpected status. Neither the source type nor the payload matters.
\<close>

theorem classify_status_code:
  "classify_result source_type None payload None = Inr c_missing_config
   \<and> is_error_with ''malformed_or_missing_config'' ''fix_request'' c_missing_config
   \<and> (\<forall>sc c. classify_result source_type (Some sc) payload None = c \<longrightarrow>
        (sc = 400 \<longrightarrow> c = Inr c_malformed_request)
      \<and> (sc = 401 \<or> sc = 403 \<longrightarrow> c = Inr c_auth)
      \<and> (sc = 404 \<longrightarrow> c = Inr c_not_found)
      \<and> (sc = 429 \<longrightarrow> c = Inr c_rate_limited)
      \<and> (500 \<le> sc \<and> sc < 600 \<longrightarrow> c = Inr c_upstream)
      \<and> (\<not> (200 \<le> sc \<and> sc < 300) \<and> sc \<notin> {400, 401, 403, 404, 429}
           \<and> \<not> (500 \<le> sc \<and> sc < 600) \<longrightarrow> c = Inr (c_unexpected sc)))
   \<and> is_error_with ''malformed_request'' ''fix_request'' c_malformed_request
   \<and> is_error_with ''auth_or_access'' ''check_api_key_or_permissions'' c_auth
   \<and> is_error_with ''dataset_not_found'' ''fix_request'' c_not_found
   \<and> is_error_with ''rate_limited'' ''retry_later'' c_rate_limited
   \<and> is_error_with ''upstream_server_error'' ''retry_later'' c_upstream
   \<and> (\<forall>sc. is_error_with ''unexpected_status'' ''inspect_response'' (c_unexpected sc))"
  by (auto simp: classify_result_def is_error_with_def mk_classification_def c_missing_config_def
      c_malformed_request_def c_auth_def c_not_found_def c_rate_limited_def c_upstream_def
      c_unexpected_def)

theorem classify_status_code_witness:
  "classify_result ''oecd'' (Some 404) JNull None = Inr c_not_found
   \<and> classify_result ''oecd'' (Some 418) JNull None = Inr (c_unexpected 418)
   \<and> classify_result ''oecd'' (Some 503) JNull None = Inr c_upstream
   \<and> classify_result ''oecd'' None JNull None = Inr c_missing_config"
proof -
  have h: "\<forall>sc c. classify_result ''oecd'' (Some sc) JNull None = c \<longrightarrow>
        (sc = 400 \<longrightarrow> c = Inr c_malformed_request)
      \<and> (sc = 401 \<or> sc = 403 \<longrightarrow> c = Inr c_auth)
      \<and> (sc = 404 \<longrightarrow> c = Inr c_not_found)
      \<and> (sc = 429 \<longrightarrow> c = Inr c_rate_limited)
      \<and> (500 \<le> sc \<and> sc < 600 \<longrightarrow> c = Inr c_upstream)
      \<and> (\<not> (200 \<le> sc \<and> sc < 300) \<and> sc \<notin> {400, 401, 403, 404, 429}
           \<and> \<not> (500 \<le> sc \<and> sc < 600) \<longrightarrow> c = Inr (c_unexpected sc))"
    and n: "classify_result ''oecd'' None JNull None = Inr c_missing_config"
    using classify_status_code [of "''oecd''" JNull] by blast+
  from h [rule_format, of 404] h [rule_format, of 418] h [rule_format, of 503] n
  show ?thesis by simp
qed

text \<open>
  C9. The classifier is not total. For bls and a status code from 200 to 299 the heuristic
  calls \<^verbatim>\<open>get\<close> on the value of \<^verbatim>\<open>Results\<close> and on the first element of
  \<^verbatim>\<open>series\<close>, and subscripts \<^verbatim>\<open>series\<close>, without a test of their types: a
  \<^verbatim>\<open>Results\<close> that is null, a \<^verbatim>\<open>series\<close> that is a number, and a \<^verbatim>\<open>series\<close>
  whose first element is a string each raise instead of returning a classification.
\<close>

theorem classify_result_raises_on_bls:
  "classify_result ''bls'' (Some 200) (JDict [(''Results'', JNull)]) None
     = Inl (AttributeError ''object has no attribute get'')
   \<and> classify_result ''bls'' (Some 200)
        (JDict [(''Results'', JDict [(''series'', JInt 5)])]) None
     = Inl (TypeError ''object is not subscriptable'')
   \<and> classify_result ''bls'' (Some 200)
        (JDict [(''Results'', JDict [(''series'', JList [JStr ''x''])])]) None
     = Inl (AttributeError ''object has no attribute get'')"
  by (simp add: classify_result_def is_no_data_response_def bls_no_data_def)

section \<open>Properties of the downloader\<close>

lemma classify_total_on_shape:
  assumes "bls_shape source_type p"
  shows "\<exists>c. classify_result source_type sc p e = Inr c"
proof (cases e)
  case (Some exc)
  then show ?thesis by (simp add: classify_result_def)
next
  case None
  then show ?thesis
    by (cases sc) (simp_all add: classify_result_def is_no_data_design [OF assms])
qed

lemma accumulate_consistent:
  "summary_consistent sm \<Longrightarrow> summary_consistent (accumulate year result request_meta sm)"
  by (simp add: summary_consistent_def accumulate_def Let_def mk_year_entry_def mk_error_entry_def)

lemma accumulate_years:
  "map ye_year (years (accumulate year result request_meta sm)) = map ye_year (years sm) @ [year]"
  by (simp add: accumulate_def Let_def mk_year_entry_def)

text \<open>The loop keeps the summary consistent and adds the years in the order it meets them.\<close>

lemma download_years_invariant:
  "download_years handler md base_dir ys sm fs w = (Inr sm', fs', w') \<Longrightarrow>
   summary_consistent sm \<Longrightarrow>
   summary_consistent sm' \<and> map ye_year (years sm') = map ye_year (years sm) @ ys"
proof (induction ys arbitrary: sm fs w)
  case Nil
  then show ?case by simp
next
  case (Cons year rest)
  obtain outcome w1 where h: "handler (md_dataset_id md) year w = (outcome, w1)"
    by (cases "handler (md_dataset_id md) year w")
  obtain payload request_meta status_code captured_error
    where c: "capture outcome = (payload, request_meta, status_code, captured_error)"
    by (cases "capture outcome")
  show ?case
  proof (cases "classify_result (md_source_type md) status_code payload captured_error")
    case (Inl exc)
    with Cons.prems h c show ?thesis by simp
  next
    case (Inr result)
    with Cons.prems h c have run:
      "download_years handler md base_dir rest (accumulate year result request_meta sm)
         (write_json (year_path base_dir year)
            (YearFile (mk_year_artifact md year request_meta result payload)) fs) w1
       = (Inr sm', fs', w')"
      by simp
    from Cons.IH [OF run accumulate_consistent [OF Cons.prems(2)]]
    show ?thesis by (simp add: accumulate_years)
  qed
qed

text \<open>
  Where the classifier cannot raise, the loop visits every year and writes one file per
  year, in order.
\<close>

lemma download_years_completes:
  assumes "\<And>year w. bls_shape (md_source_type md)
             (captured_payload (fst (handler (md_dataset_id md) year w)))"
  shows "\<exists>sm' fs' w'. download_years handler md base_dir ys sm fs w = (Inr sm', fs', w')
           \<and> map fst fs' = map fst fs @ map (year_path base_dir) ys"
proof (induction ys arbitrary: sm fs w)
  case Nil
  then show ?case by simp
next
  case (Cons year rest)
  obtain outcome w1 where h: "handler (md_dataset_id md) year w = (outcome, w1)"
    by (cases "handler (md_dataset_id md) year w")
  obtain payload request_meta status_code captured_error
    where c: "capture outcome = (payload, request_meta, status_code, captured_error)"
    by (cases "capture outcome")
  from assms [of year w] h c have "bls_shape (md_source_type md) payload"
    by (simp add: captured_payload_def)
  from classify_total_on_shape [OF this] obtain result
    where r: "classify_result (md_source_type md) status_code payload captured_error = Inr result"
    by blast
  from Cons.IH [of "accumulate year result request_meta sm"
        "write_json (year_path base_dir year)
            (YearFile (mk_year_artifact md year request_meta result payload)) fs" w1]
  show ?case using h c r by (auto simp: write_json_def)
qed

lemma download_dataset_completes:
  assumes sup: "source_type \<in> set supported_source_types"
    and shape: "\<And>year w. bls_shape source_type
                  (captured_payload (fst (adapters source_type dataset_id year w)))"
  shows "\<exists>sm fs' w'.
           download_dataset adapters group_name dataset_name source_type dataset_id fs w
             = (Inr sm, fs', w')
           \<and> map fst fs' = map fst fs
                @ map (year_path (path_join ''data/raw_json''
                         (slugify (group_name @ ''_'' @ dataset_name))))
                    [START_YEAR..END_YEAR]
                @ [path_join (path_join ''data/raw_json''
                     (slugify (group_name @ ''_'' @ dataset_name))) ''_summary.json'']
           \<and> snd (last fs') = SummaryFile sm"
proof -
  let ?md = "\<lparr>md_group = group_name, md_dataset_name = dataset_name, md_source_type = source_type,
                md_dataset_id = dataset_id, md_start_year = START_YEAR, md_end_year = END_YEAR\<rparr>"
  let ?sm0 = "\<lparr>sm_metadata = ?md, totals_ok = 0, totals_error = 0, errors = [], years = []\<rparr>"
  let ?base = "path_join ''data/raw_json'' (slugify (group_name @ ''_'' @ dataset_name))"
  from sup have hg: "handlers_get adapters source_type = Some (adapters source_type)"
    by (simp add: handlers_get_def)
  have "\<And>year w. bls_shape (md_source_type ?md)
          (captured_payload (fst (adapters source_type (md_dataset_id ?md) year w)))"
    using shape by simp
  from download_years_completes [of ?md "adapters source_type", OF this]
  obtain sm fs1 w1 where run:
    "download_years (adapters source_type) ?md ?base [START_YEAR..END_YEAR] ?sm0 fs w
       = (Inr sm, fs1, w1)"
    and paths: "map fst fs1 = map fst fs @ map (year_path ?base) [START_YEAR..END_YEAR]"
    by blast
  from hg run have "download_dataset adapters group_name dataset_name source_type dataset_id fs w
      = (Inr sm, write_json (path_join ?base ''_summary.json'') (SummaryFile sm) fs1, w1)"
    by (simp add: download_dataset_def Let_def)
  with paths show ?thesis by (simp add: write_json_def)
qed

lemma length_years: "length [START_YEAR..END_YEAR] = 32"
  by (simp add: START_YEAR_def END_YEAR_def)

text \<open>
  C6. A per-year outcome can abort the run. The adapter call is inside the \<^verbatim>\<open>try\<close>
  block, the classifier is not: when the bls upstream answers 200 with
  \<^verbatim>\<open>{"Results": null}\<close> for 1996, the classifier raises, the exception leaves
  \<^verbatim>\<open>download_dataset\<close>, and the run ends after two adapter calls with the file of 1995
  as its only write: no file for 1996 to 2026 and no summary.
\<close>

theorem download_dataset_aborts_on_bls_payload:
  "(case download_dataset bls_null_results_adapter ''BLS'' ''US CPI (Inflation)'' ''bls''
           ''CUSR0000SA0'' [] 0 of
      (r, fs, calls) \<Rightarrow>
        r = Inl (AttributeError ''object has no attribute get'')
        \<and> map fst fs = [''data/raw_json/bls_us_cpi_inflation/1995.json'']
        \<and> calls = 2)"
  by code_simp

text \<open>
  The loop books each year as its classification says: the summary grows by the entries
  of the trace of the years it visits.
\<close>

lemma accumulate_trace:
  "years (accumulate year result request_meta sm) = years sm @ [trace_year_entry (year, request_meta, result)]
   \<and> errors (accumulate year result request_meta sm)
       = errors sm @ map trace_error_entry (filter (\<lambda>t. \<not> trace_ok t) [(year, request_meta, result)])
   \<and> totals_ok (accumulate year result request_meta sm)
       = totals_ok sm + int (length (filter trace_ok [(year, request_meta, result)]))
   \<and> totals_error (accumulate year result request_meta sm)
       = totals_error sm + int (length (filter (\<lambda>t. \<not> trace_ok t) [(year, request_meta, result)]))"
  by (simp add: accumulate_def Let_def trace_ok_def trace_year_entry_def trace_error_entry_def)

lemma download_years_trace:
  "download_years handler md base_dir ys sm fs w = (Inr sm', fs', w') \<Longrightarrow>
   \<exists>trace. year_trace handler (md_source_type md) (md_dataset_id md) ys w = Inr trace
     \<and> map fst trace = ys
     \<and> years sm' = years sm @ map trace_year_entry trace
     \<and> errors sm' = errors sm @ map trace_error_entry (filter (\<lambda>t. \<not> trace_ok t) trace)
     \<and> totals_ok sm' = totals_ok sm + int (length (filter trace_ok trace))
     \<and> totals_error sm' = totals_error sm + int (length (filter (\<lambda>t. \<not> trace_ok t) trace))"
proof (induction ys arbitrary: sm fs w)
  case Nil
  then show ?case by simp
next
  case (Cons year rest)
  obtain outcome w1 where h: "handler (md_dataset_id md) year w = (outcome, w1)"
    by (cases "handler (md_dataset_id md) year w")
  obtain payload request_meta status_code captured_error
    where c: "capture outcome = (payload, request_meta, status_code, captured_error)"
    by (cases "capture outcome")
  show ?case
  proof (cases "classify_result (md_source_type md) status_code payload captured_error")
    case (Inl exc)
    with Cons.prems h c show ?thesis by simp
  next
    case (Inr result)
    let ?sm1 = "accumulate year result request_meta sm"
    from Inr Cons.prems h c have run:
      "download_years handler md base_dir rest ?sm1
         (write_json (year_path base_dir year)
            (YearFile (mk_year_artifact md year request_meta result payload)) fs) w1
       = (Inr sm', fs', w')"
      by simp
    from Cons.IH [OF run] obtain trace where
      t: "year_trace handler (md_source_type md) (md_dataset_id md) rest w1 = Inr trace"
      and f: "map fst trace = rest"
      and y: "years sm' = years ?sm1 @ map trace_year_entry trace"
      and e: "errors sm' = errors ?sm1 @ map trace_error_entry (filter (\<lambda>t. \<not> trace_ok t) trace)"
      and o: "totals_ok sm' = totals_ok ?sm1 + int (length (filter trace_ok trace))"
      and r: "totals_error sm' = totals_error ?sm1 + int (length (filter (\<lambda>t. \<not> trace_ok t) trace))"
      by blast
    let ?t = "(year, request_meta, result)"
    have a1: "year_trace handler (md_source_type md) (md_dataset_id md) (year # rest) w = Inr (?t # trace)"
      using h c Inr t by simp
    have a2: "map fst (?t # trace) = year # rest" using f by simp
    have a3: "years sm' = years sm @ map trace_year_entry (?t # trace)"
      using y accumulate_trace [of year result request_meta sm] by simp
    have a4: "errors sm' = errors sm @ map trace_error_entry (filter (\<lambda>t. \<not> trace_ok t) (?t # trace))"
      using e accumulate_trace [of year result request_meta sm] by simp
    have a5: "totals_ok sm' = totals_ok sm + int (length (filter trace_ok (?t # trace)))"
      using o accumulate_trace [of year result request_meta sm] by simp
    have a6: "totals_error sm' = totals_error sm + int (length (filter (\<lambda>t. \<not> trace_ok t) (?t # trace)))"
      using r accumulate_trace [of year result request_meta sm] by simp
    show ?thesis
      by (rule exI [of _ "?t # trace"]) (intro conjI a1 a2 a3 a4 a5 a6)
  qed
qed

text \<open>
  C10. In every summary that \<^verbatim>\<open>download_dataset\<close> returns: the run classified the
  outcome of each of the years 1995 to 2026, in this order (the trace); the year entries
  are the entries of these 32 classifications, one per year in ascending order; the error
  list has one entry for each year whose classification has a status other than ok, in
  the same order, and the error total is their number; the ok total is the number of
  years whose classification has status ok; so the two totals add up to the number of
  year entries, which is 32, and both agree with the status recorded in the year entries.
\<close>

theorem summary_totals_agree:
  assumes "download_dataset adapters group_name dataset_name source_type dataset_id fs w
             = (Inr sm, fs', w')"
  shows "\<exists>trace. year_trace (adapters source_type) source_type dataset_id [1995..2026] w = Inr trace
     \<and> map fst trace = [1995..2026]
     \<and> years sm = map trace_year_entry trace
     \<and> errors sm = map trace_error_entry (filter (\<lambda>t. \<not> trace_ok t) trace)
     \<and> totals_ok sm = int (length (filter trace_ok trace))
     \<and> totals_error sm = int (length (filter (\<lambda>t. \<not> trace_ok t) trace))
     \<and> totals_ok sm + totals_error sm = int (length (years sm))
     \<and> length (years sm) = 32
     \<and> map ye_year (years sm) = [1995..2026]
     \<and> int (length (errors sm)) = totals_error sm
     \<and> map ee_year (errors sm) = map ye_year (filter (\<lambda>e. ye_status e \<noteq> ''ok'') (years sm))
     \<and> totals_ok sm = int (length (filter (\<lambda>e. ye_status e = ''ok'') (years sm)))"
proof -
  let ?md = "\<lparr>md_group = group_name, md_dataset_name = dataset_name, md_source_type = source_type,
                md_dataset_id = dataset_id, md_start_year = START_YEAR, md_end_year = END_YEAR\<rparr>"
  let ?sm0 = "\<lparr>sm_metadata = ?md, totals_ok = 0, totals_error = 0, errors = [], years = []\<rparr>"
  let ?base = "path_join ''data/raw_json'' (slugify (group_name @ ''_'' @ dataset_name))"
  from assms obtain handler where hg: "handlers_get adapters source_type = Some handler"
    by (cases "handlers_get adapters source_type") (auto simp: download_dataset_def Let_def)
  then have handler: "handler = adapters source_type"
    by (auto simp: handlers_get_def split: if_splits)
  obtain r fs1 w1 where
    run: "download_years handler ?md ?base [START_YEAR..END_YEAR] ?sm0 fs w = (r, fs1, w1)"
    by (cases "download_years handler ?md ?base [START_YEAR..END_YEAR] ?sm0 fs w") auto
  with assms hg have r: "r = Inr sm"
    by (cases r) (auto simp: download_dataset_def Let_def)
  have c0: "summary_consistent ?sm0" by (simp add: summary_consistent_def)
  from download_years_invariant [OF run [unfolded r] c0]
  have cons: "summary_consistent sm" and ys: "map ye_year (years sm) = [START_YEAR..END_YEAR]"
    by simp_all
  from ys have "length (map ye_year (years sm)) = 32" by (simp only: length_years)
  then have len: "length (years sm) = 32" by simp
  from ys have ys': "map ye_year (years sm) = [1995..2026]"
    by (simp only: START_YEAR_def END_YEAR_def)
  from download_years_trace [OF run [unfolded r]] obtain trace where
    t1: "year_trace handler source_type dataset_id [START_YEAR..END_YEAR] w = Inr trace"
    and t2: "map fst trace = [START_YEAR..END_YEAR]"
    and t3: "years sm = map trace_year_entry trace"
    and t4: "errors sm = map trace_error_entry (filter (\<lambda>t. \<not> trace_ok t) trace)"
    and t5: "totals_ok sm = int (length (filter trace_ok trace))"
    and t6: "totals_error sm = int (length (filter (\<lambda>t. \<not> trace_ok t) trace))"
    by auto
  from t1 have t1': "year_trace (adapters source_type) source_type dataset_id [1995..2026] w = Inr trace"
    by (simp only: START_YEAR_def END_YEAR_def handler)
  from t2 have t2': "map fst trace = [1995..2026]"
    by (simp only: START_YEAR_def END_YEAR_def)
  from cons have c1: "totals_ok sm + totals_error sm = int (length (years sm))"
    and c2: "int (length (errors sm)) = totals_error sm"
    and c3: "map ee_year (errors sm) = map ye_year (filter (\<lambda>e. ye_status e \<noteq> ''ok'') (years sm))"
    and c4: "totals_ok sm = int (length (filter (\<lambda>e. ye_status e = ''ok'') (years sm)))"
    unfolding summary_consistent_def by blast+
  show ?thesis
    by (rule exI [of _ trace]) (intro conjI t1' t2' t3 t4 t5 t6 c1 len ys' c2 c3 c4)
qed

text \<open>The adapter without requests: every year is classified as a missing configuration.\<close>

lemma imf_year_trace:
  "year_trace imf_request ''imf'' dataset_id ys w
     = Inr (map (\<lambda>year. (year, JDict [(''url'', JStr dataset_id), (''status_code'', JNull)],
                          c_missing_config)) ys)"
  by (induction ys arbitrary: w) (simp_all add: imf_request_def capture_def classify_result_def)

theorem summary_totals_agree_witness:
  "(case download_dataset (\<lambda>source_type. imf_request) ''IMF'' ''World GDP'' ''imf'' '''' [] () of
      (Inr sm, fs, w) \<Rightarrow>
        totals_ok sm = 0 \<and> totals_error sm = 32 \<and> length (errors sm) = 32
        \<and> length (years sm) = 32 \<and> map ye_year (years sm) = [1995..2026]
    | (Inl exc, fs, w) \<Rightarrow> False)"
proof -
  have "bls_shape ''imf'' p" for p by (simp add: bls_shape_def)
  then have "\<And>year w. bls_shape ''imf''
      (captured_payload (fst (imf_request '''' year (w::unit))))" .
  from download_dataset_completes [of "''imf''" "\<lambda>source_type. imf_request" "''''"
      "''IMF''" "''World GDP''" "[]" "()", OF _ this]
  obtain sm fs' w' where run:
    "download_dataset (\<lambda>source_type. imf_request) ''IMF'' ''World GDP'' ''imf'' '''' [] ()
       = (Inr sm, fs', w')"
    by (auto simp: supported_source_types_def)
  from summary_totals_agree [OF run] obtain trace where
    t: "year_trace imf_request ''imf'' '''' [1995..2026] () = Inr trace"
    and ok: "totals_ok sm = int (length (filter trace_ok trace))"
    and er: "totals_error sm = int (length (filter (\<lambda>t. \<not> trace_ok t) trace))"
    and c: "int (length (errors sm)) = totals_error sm"
    and l: "length (years sm) = 32" and y: "map ye_year (years sm) = [1995..2026]"
    by blast
  from t have tr: "trace = map (\<lambda>year. (year, JDict [(''url'', JStr ''''), (''status_code'', JNull)],
                          c_missing_config)) [1995..2026]"
    by (simp only: imf_year_trace sum.inject)
  have nok: "\<not> trace_ok (year, m, c_missing_config)" for year m
    by (simp add: trace_ok_def c_missing_config_def mk_classification_def)
  have f1: "filter trace_ok trace = []" unfolding tr by (simp add: filter_map o_def nok)
  have f2: "filter (\<lambda>t. \<not> trace_ok t) trace = trace"
    unfolding tr by (simp add: filter_map o_def nok)
  have lt: "length trace = 32" unfolding tr by simp
  from ok f1 have a: "totals_ok sm = 0" by simp
  from er f2 lt have b: "totals_error sm = 32" by simp
  from c b have d: "length (errors sm) = 32" by simp
  from a b d l y run show ?thesis by simp
qed

section \<open>Properties of the retry policy\<close>

lemma throttle_requests: "requests (throttle env st w) = requests w"
  by (simp add: throttle_def monotonic_def time_sleep_def Let_def split: option.splits)

text \<open>An attempt whose response has a retryable status raises, after one request.\<close>

lemma attempt_retryable:
  assumes "respond env (requests w) req = Responds r" "rs_status_code r \<in> RETRYABLE_STATUS_CODES"
  shows "\<exists>w1. attempt env st req w =
           (Inl (RetryableRequestError (''retryable status code '' @ str_int (rs_status_code r))
                   (Some (rs_status_code r))), w1)
         \<and> requests w1 = requests w + 1"
  using assms by (simp add: attempt_def session_request_def throttle_requests)

text \<open>
  From attempt \<open>n\<close> on, an upstream that keeps answering with a retryable status is asked
  once per remaining attempt, and the error of the last attempt is the result.
\<close>

lemma request_attempts_exhaust:
  assumes "\<forall>k. k + n \<le> MAX_ATTEMPTS \<longrightarrow> (\<exists>r. respond env (requests w + k) req = Responds r
                    \<and> rs_status_code r \<in> RETRYABLE_STATUS_CODES)"
    and "1 \<le> n" "n \<le> MAX_ATTEMPTS"
  shows "\<exists>r w'. request_attempts env st req n w =
           (Inl (RetryableRequestError (''retryable status code '' @ str_int (rs_status_code r))
                   (Some (rs_status_code r))), w')
         \<and> respond env (requests w + (MAX_ATTEMPTS - n)) req = Responds r
         \<and> requests w' = requests w + (MAX_ATTEMPTS - n) + 1"
  using assms
proof (induction "MAX_ATTEMPTS - n" arbitrary: n w)
  case 0
  then have n: "n = MAX_ATTEMPTS" by simp
  from "0.prems"(1) [rule_format, of 0] "0.prems" obtain r where
    r: "respond env (requests w) req = Responds r" "rs_status_code r \<in> RETRYABLE_STATUS_CODES"
    by auto
  from attempt_retryable [OF r, of st] obtain w1 where
    a: "attempt env st req w =
           (Inl (RetryableRequestError (''retryable status code '' @ str_int (rs_status_code r))
                   (Some (rs_status_code r))), w1)" "requests w1 = requests w + 1"
    by blast
  show ?case
    by (subst request_attempts.simps) (use a r n in simp)
next
  case (Suc d)
  then have n: "n < MAX_ATTEMPTS" by simp
  from Suc.prems(1) [rule_format, of 0] Suc.prems obtain r where
    r: "respond env (requests w) req = Responds r" "rs_status_code r \<in> RETRYABLE_STATUS_CODES"
    by auto
  from attempt_retryable [OF r, of st] obtain w1 where
    a: "attempt env st req w =
           (Inl (RetryableRequestError (''retryable status code '' @ str_int (rs_status_code r))
                   (Some (rs_status_code r))), w1)" "requests w1 = requests w + 1"
    by blast
  define w2 where
    "w2 = time_sleep (wait_exponential_jitter env n w1) (w1\<lparr>draws := draws w1 + 1\<rparr>)"
  have rq: "requests w2 = requests w + 1" using a(2) by (simp add: w2_def time_sleep_def)
  have step: "request_attempts env st req n w = request_attempts env st req (n + 1) w2"
    unfolding w2_def by (subst request_attempts.simps) (use a n in simp)
  have hyp: "\<forall>k. k + (n + 1) \<le> MAX_ATTEMPTS \<longrightarrow>
               (\<exists>r. respond env (requests w2 + k) req = Responds r
                    \<and> rs_status_code r \<in> RETRYABLE_STATUS_CODES)"
  proof (intro allI impI)
    fix k assume "k + (n + 1) \<le> MAX_ATTEMPTS"
    then have "Suc k + n \<le> MAX_ATTEMPTS" by simp
    from Suc.prems(1) [rule_format, OF this]
    show "\<exists>r. respond env (requests w2 + k) req = Responds r
               \<and> rs_status_code r \<in> RETRYABLE_STATUS_CODES"
      by (simp add: rq)
  qed
  from Suc.hyps(2) have d: "d = MAX_ATTEMPTS - (n + 1)" by simp
  from Suc.hyps(1) [OF d hyp] n obtain r' w' where
    res: "request_attempts env st req (n + 1) w2 =
           (Inl (RetryableRequestError (''retryable status code '' @ str_int (rs_status_code r'))
                   (Some (rs_status_code r'))), w')"
      "respond env (requests w2 + (MAX_ATTEMPTS - (n + 1))) req = Responds r'"
      "requests w' = requests w2 + (MAX_ATTEMPTS - (n + 1)) + 1"
    by auto
  have e1: "requests w2 + (MAX_ATTEMPTS - (n + 1)) = requests w + (MAX_ATTEMPTS - n)"
    using rq n by simp
  from res(2) have r2: "respond env (requests w + (MAX_ATTEMPTS - n)) req = Responds r'"
    by (simp only: e1)
  from res(3) have r3: "requests w' = requests w + (MAX_ATTEMPTS - n) + 1"
    by (simp only: e1)
  from res(1) step r2 r3 show ?case by auto
qed

text \<open>
  C1. When each of the next six requests of the session is answered with a retryable
  status, \<^verbatim>\<open>_request_with_retries\<close> sends exactly six requests and then raises the
  \<^verbatim>\<open>RetryableRequestError\<close> of the sixth: its result is that error, not a response.
\<close>

theorem retries_exhausted_after_six:
  assumes "\<forall>k<6. \<exists>r. respond env (requests w + k) req = Responds r
                    \<and> rs_status_code r \<in> RETRYABLE_STATUS_CODES"
  shows "\<exists>r w'. request_with_retries env source_type req w =
           (Inl (RetryableRequestError (''retryable status code '' @ str_int (rs_status_code r))
                   (Some (rs_status_code r))), w')
         \<and> respond env (requests w + 5) req = Responds r
         \<and> requests w' = requests w + 6"
proof -
  have "\<forall>k. k + 1 \<le> MAX_ATTEMPTS \<longrightarrow> (\<exists>r. respond env (requests w + k) req = Responds r
                    \<and> rs_status_code r \<in> RETRYABLE_STATUS_CODES)"
    using assms by (simp add: MAX_ATTEMPTS_def)
  from request_attempts_exhaust [OF this, of source_type]
  obtain r w' where res:
    "request_attempts env source_type req 1 w =
       (Inl (RetryableRequestError (''retryable status code '' @ str_int (rs_status_code r))
               (Some (rs_status_code r))), w')"
    "respond env (requests w + (MAX_ATTEMPTS - 1)) req = Responds r"
    "requests w' = requests w + (MAX_ATTEMPTS - 1) + 1"
    by (auto simp: MAX_ATTEMPTS_def)
  have m: "MAX_ATTEMPTS - 1 = 5" by (simp add: MAX_ATTEMPTS_def)
  from res(2) have r5: "respond env (requests w + 5) req = Responds r" by (simp only: m)
  from res(3) have r6: "requests w' = requests w + 6" by (simp add: MAX_ATTEMPTS_def)
  from res(1) r5 r6 show ?thesis unfolding request_with_retries_def by blast
qed

lemma str_int_503: "str_int 503 = ''503''"
  by code_simp

theorem retries_exhausted_after_six_witness:
  "\<exists>w'. request_with_retries busy_upstream ''fred'' fred_get start_world =
           (Inl (RetryableRequestError ''retryable status code 503'' (Some 503)), w')
         \<and> requests w' = 6"
proof -
  have h: "\<forall>k<6. \<exists>r. respond busy_upstream (requests start_world + k) fred_get = Responds r
                    \<and> rs_status_code r \<in> RETRYABLE_STATUS_CODES"
    by (simp add: busy_upstream_def RETRYABLE_STATUS_CODES_def)
  from retries_exhausted_after_six [OF h, of "''fred''"]
  show ?thesis
    by (auto simp: busy_upstream_def start_world_def str_int_503)
qed

end
